theory Spec2Isabelle
  imports Main "HOL-Library.Word"
begin

section \<open>VeilGame: a confidential builder game\<close>

text \<open>
  A shallow embedding of the Solidity contract \<^verbatim>\<open>VeilGame\<close> (\<^verbatim>\<open>contracts/VeilGame.sol\<close>):
  the per-player record, \<^verbatim>\<open>joinGame\<close>, \<^verbatim>\<open>build\<close>, the three view functions and the
  internal \<^verbatim>\<open>_buildingCost\<close>. The contract computes on ciphertexts through the FHE
  library, which is an external dependency; it is modelled here by its ideal
  functionality (a handle together with the plaintext that an authorised decryption
  would return).
\<close>

subsection \<open>Scalar types\<close>

type_synonym address = "160 word"
type_synonym uint8 = "8 word"
type_synonym uint32 = "32 word"
type_synonym bytes = "8 word list"

subsection \<open>The ciphertext provider\<close>

text \<open>
  Modelled from the spec: the Ciphertext Provider (the imported FHE library
  \<^verbatim>\<open>@fhevm/solidity/lib/FHE.sol\<close>, whose code is not part of the repository). The spec
  gives it \<^verbatim>\<open>encrypt\<close>, \<^verbatim>\<open>decode\<close> (which fails with \<^verbatim>\<open>InvalidProof\<close>), the oblivious
  \<^verbatim>\<open>eq/ne/ge/and/sub/select\<close> and \<^verbatim>\<open>authorize\<close>.

  A ciphertext is an opaque \<open>handle\<close>; \<open>plain\<close> is the value a decryption by an
  authorised party yields. The contract never reads \<open>plain\<close> other than through the
  provider's operations. Every operation produces a new ciphertext and is recorded,
  with its operand handles and public scalars, in \<open>oplog\<close>: that log is the publicly
  visible sequence of provider calls. \<open>acl\<close> holds the decryption authorisations per
  handle. Handle \<open>0\<close> is the uninitialised handle of untouched storage.

  The spec does not say how the provider names the ciphertexts it produces. Here the
  result of each call is named by a running counter, so two calls never share a handle.
  A provider may as well derive the handle from the operation and its operands, and
  then equal calls share one handle. None of the claims proved below needs two equal
  calls to have different handles: which handles coincide is the provider's matter,
  and what the contract does is ask for authorisations on the handles it stores.
\<close>

record 'a ciphertext =
  handle :: nat
  plain :: 'a

type_synonym euint8 = "uint8 ciphertext"
type_synonym euint32 = "uint32 ciphertext"
type_synonym ebool = "bool ciphertext"
type_synonym externalEuint8 = "uint8 ciphertext"

datatype fhe_op = OpTrivialEncrypt | OpEq | OpNe | OpGe | OpAnd | OpSub | OpSelect

datatype operand = Ct nat | Clear nat

type_synonym fhe_call = "fhe_op \<times> operand list \<times> nat"

record fhevm =
  next_handle :: nat
  acl :: "nat \<Rightarrow> address set"
  oplog :: "fhe_call list"
  input_verifier :: "address \<Rightarrow> nat \<Rightarrow> bytes \<Rightarrow> bool"

definition produce :: "fhe_op \<Rightarrow> operand list \<Rightarrow> 'a \<Rightarrow> fhevm \<Rightarrow> 'a ciphertext \<times> fhevm" where
  "produce f args v fh =
     (\<lparr>handle = next_handle fh, plain = v\<rparr>,
      fh\<lparr>next_handle := Suc (next_handle fh),
         oplog := oplog fh @ [(f, args, next_handle fh)]\<rparr>)"

definition FHE_asEuint32 :: "uint32 \<Rightarrow> fhevm \<Rightarrow> euint32 \<times> fhevm" where
  "FHE_asEuint32 v = produce OpTrivialEncrypt [Clear (unat v)] v"

definition FHE_asEuint8 :: "uint8 \<Rightarrow> fhevm \<Rightarrow> euint8 \<times> fhevm" where
  "FHE_asEuint8 v = produce OpTrivialEncrypt [Clear (unat v)] v"

definition FHE_eq :: "euint8 \<Rightarrow> uint8 \<Rightarrow> fhevm \<Rightarrow> ebool \<times> fhevm" where
  "FHE_eq a b = produce OpEq [Ct (handle a), Clear (unat b)] (plain a = b)"

definition FHE_ne :: "euint32 \<Rightarrow> uint32 \<Rightarrow> fhevm \<Rightarrow> ebool \<times> fhevm" where
  "FHE_ne a b = produce OpNe [Ct (handle a), Clear (unat b)] (plain a \<noteq> b)"

definition FHE_ge :: "euint32 \<Rightarrow> euint32 \<Rightarrow> fhevm \<Rightarrow> ebool \<times> fhevm" where
  "FHE_ge a b = produce OpGe [Ct (handle a), Ct (handle b)] (plain b \<le> plain a)"

definition FHE_and :: "ebool \<Rightarrow> ebool \<Rightarrow> fhevm \<Rightarrow> ebool \<times> fhevm" where
  "FHE_and a b = produce OpAnd [Ct (handle a), Ct (handle b)] (plain a \<and> plain b)"

text \<open>Subtraction on \<^verbatim>\<open>euint32\<close> wraps modulo \<open>2 ^ 32\<close>, as word subtraction does.\<close>

definition FHE_sub :: "euint32 \<Rightarrow> euint32 \<Rightarrow> fhevm \<Rightarrow> euint32 \<times> fhevm" where
  "FHE_sub a b = produce OpSub [Ct (handle a), Ct (handle b)] (plain a - plain b)"

definition FHE_select ::
  "ebool \<Rightarrow> 'a ciphertext \<Rightarrow> 'a ciphertext \<Rightarrow> fhevm \<Rightarrow> 'a ciphertext \<times> fhevm" where
  "FHE_select c a b =
     produce OpSelect [Ct (handle c), Ct (handle a), Ct (handle b)]
       (if plain c then plain a else plain b)"

definition FHE_allow :: "'a ciphertext \<Rightarrow> address \<Rightarrow> fhevm \<Rightarrow> fhevm" where
  "FHE_allow c who fh = fh\<lparr>acl := (acl fh)(handle c := insert who (acl fh (handle c)))\<rparr>"

text \<open>\<^verbatim>\<open>FHE.allowThis(c)\<close> is \<^verbatim>\<open>FHE.allow(c, address(this))\<close>.\<close>

definition FHE_allowThis :: "address \<Rightarrow> 'a ciphertext \<Rightarrow> fhevm \<Rightarrow> fhevm" where
  "FHE_allowThis this_address c = FHE_allow c this_address"

subsection \<open>Reverts\<close>

text \<open>
  The three \<^verbatim>\<open>require\<close> messages of the contract and the provider's rejection of an
  input proof. The spec calls them \<^verbatim>\<open>AlreadyJoined\<close>, \<^verbatim>\<open>NotJoined\<close>,
  \<^verbatim>\<open>IndexOutOfRange\<close> and \<^verbatim>\<open>InvalidProof\<close>.
\<close>

datatype revert =
    Already_joined  \<comment> \<open>\<^verbatim>\<open>require(!player.joined, "Already joined")\<close>\<close>
  | Join_first      \<comment> \<open>\<^verbatim>\<open>require(_players[msg.sender].joined, "Join first")\<close>\<close>
  | Invalid_tile    \<comment> \<open>\<^verbatim>\<open>require(tileIndex < MAP_SIZE, "Invalid tile")\<close>\<close>
  | Invalid_proof   \<comment> \<open>raised inside \<^verbatim>\<open>FHE.fromExternal\<close>\<close>

definition FHE_fromExternal ::
  "address \<Rightarrow> externalEuint8 \<Rightarrow> bytes \<Rightarrow> fhevm \<Rightarrow> revert + euint8" where
  "FHE_fromExternal sender ext inputProof fh =
     (if input_verifier fh sender (handle ext) inputProof then Inr ext else Inl Invalid_proof)"

subsection \<open>Contract state\<close>

definition STARTING_BALANCE :: uint32 where
  "STARTING_BALANCE = 10000"

definition MAP_SIZE :: uint8 where
  "MAP_SIZE = 9"

record PlayerState =
  joined :: bool
  balance :: euint32
  tiles :: "euint8 list"

datatype event = PlayerJoined address | BuildingPlaced address uint8

text \<open>
  The contract's storage is the mapping \<^verbatim>\<open>_players\<close>; \<open>address_this\<close> is the contract's
  own address, \<open>fhe\<close> the provider it talks to and \<open>events\<close> the log of emitted events.
\<close>

record VeilGame =
  players :: "address \<Rightarrow> PlayerState"
  fhe :: fhevm
  address_this :: address
  events :: "event list"

text \<open>
  Untouched storage: \<^verbatim>\<open>joined\<close> is false and every handle is the zero handle, which
  the provider treats as an encryption of zero.
\<close>

definition zero_slot :: "'a::zero ciphertext" where
  "zero_slot = \<lparr>handle = 0, plain = 0\<rparr>"

definition empty_player :: PlayerState where
  "empty_player = \<lparr>joined = False, balance = zero_slot, tiles = replicate (unat MAP_SIZE) zero_slot\<rparr>"

definition deploy :: "address \<Rightarrow> (address \<Rightarrow> nat \<Rightarrow> bytes \<Rightarrow> bool) \<Rightarrow> VeilGame" where
  "deploy this_address verifier =
     \<lparr>players = (\<lambda>_. empty_player),
      fhe = \<lparr>next_handle = 1, acl = (\<lambda>_. {}), oplog = [], input_verifier = verifier\<rparr>,
      address_this = this_address,
      events = []\<rparr>"

subsection \<open>joinGame\<close>

function joinGame_loop ::
  "address \<Rightarrow> address \<Rightarrow> uint8 \<Rightarrow> PlayerState \<times> fhevm \<Rightarrow> PlayerState \<times> fhevm" where
  "joinGame_loop sender this_address i (player, fh) =
     (if i < MAP_SIZE then
        (let (z, fh) = FHE_asEuint8 0 fh;
             player = player\<lparr>tiles := (tiles player)[unat i := z]\<rparr>;
             fh = FHE_allowThis this_address (tiles player ! unat i) fh;
             fh = FHE_allow (tiles player ! unat i) sender fh
         in joinGame_loop sender this_address (i + 1) (player, fh))
      else (player, fh))"
  by pat_completeness auto
termination
  by (relation "measure (\<lambda>(sender, this_address, i, st). unat MAP_SIZE - unat i)")
     (auto simp: MAP_SIZE_def word_less_nat_alt unat_word_ariths)

declare joinGame_loop.simps [simp del]

definition joinGame :: "address \<Rightarrow> VeilGame \<Rightarrow> revert + VeilGame" where
  "joinGame sender s =
     (let player = players s sender in
      if joined player then Inl Already_joined
      else
        (let player = player\<lparr>joined := True\<rparr>;
             (b, fh) = FHE_asEuint32 STARTING_BALANCE (fhe s);
             player = player\<lparr>balance := b\<rparr>;
             (player, fh) = joinGame_loop sender (address_this s) 0 (player, fh);
             fh = FHE_allowThis (address_this s) (balance player) fh;
             fh = FHE_allow (balance player) sender fh
         in Inr (s\<lparr>players := (players s)(sender := player),
                   fhe := fh,
                   events := events s @ [PlayerJoined sender]\<rparr>)))"

subsection \<open>build\<close>

definition buildingCost :: "euint8 \<Rightarrow> fhevm \<Rightarrow> euint32 \<times> fhevm" where
  "buildingCost buildingType fh =
     (let (cost, fh) = FHE_asEuint32 0 fh;
          (is1, fh) = FHE_eq buildingType 1 fh;
          (c100, fh) = FHE_asEuint32 100 fh;
          (cost, fh) = FHE_select is1 c100 cost fh;
          (is2, fh) = FHE_eq buildingType 2 fh;
          (c200, fh) = FHE_asEuint32 200 fh;
          (cost, fh) = FHE_select is2 c200 cost fh;
          (is3, fh) = FHE_eq buildingType 3 fh;
          (c400, fh) = FHE_asEuint32 400 fh;
          (cost, fh) = FHE_select is3 c400 cost fh;
          (is4, fh) = FHE_eq buildingType 4 fh;
          (c1000, fh) = FHE_asEuint32 1000 fh;
          (cost, fh) = FHE_select is4 c1000 cost fh
      in (cost, fh))"

definition build ::
  "address \<Rightarrow> uint8 \<Rightarrow> externalEuint8 \<Rightarrow> bytes \<Rightarrow> VeilGame \<Rightarrow> revert + VeilGame" where
  "build sender tileIndex buildingType inputProof s =
     (if \<not> joined (players s sender) then Inl Join_first
      else if \<not> tileIndex < MAP_SIZE then Inl Invalid_tile
      else
        (let player = players s sender in
         case FHE_fromExternal sender buildingType inputProof (fhe s) of
           Inl e \<Rightarrow> Inl e
         | Inr chosenType \<Rightarrow>
            (let (cost, fh) = buildingCost chosenType (fhe s);
                 (hasCost, fh) = FHE_ne cost 0 fh;
                 (canAfford, fh) = FHE_ge (balance player) cost fh;
                 (shouldBuild, fh) = FHE_and hasCost canAfford fh;
                 (reduced, fh) = FHE_sub (balance player) cost fh;
                 (newBalance, fh) = FHE_select shouldBuild reduced (balance player) fh;
                 player = player\<lparr>balance := newBalance\<rparr>;
                 (newTile, fh) = FHE_select shouldBuild chosenType (tiles player ! unat tileIndex) fh;
                 player = player\<lparr>tiles := (tiles player)[unat tileIndex := newTile]\<rparr>;
                 fh = FHE_allowThis (address_this s) (balance player) fh;
                 fh = FHE_allow (balance player) sender fh;
                 fh = FHE_allowThis (address_this s) (tiles player ! unat tileIndex) fh;
                 fh = FHE_allow (tiles player ! unat tileIndex) sender fh
             in Inr (s\<lparr>players := (players s)(sender := player),
                       fhe := fh,
                       events := events s @ [BuildingPlaced sender tileIndex]\<rparr>))))"

subsection \<open>View functions\<close>

definition isJoined :: "address \<Rightarrow> VeilGame \<Rightarrow> revert + bool" where
  "isJoined player s = Inr (joined (players s player))"

definition getBalance :: "address \<Rightarrow> VeilGame \<Rightarrow> revert + euint32" where
  "getBalance player s = Inr (balance (players s player))"

definition getTile :: "address \<Rightarrow> uint8 \<Rightarrow> VeilGame \<Rightarrow> revert + euint8" where
  "getTile player tileIndex s =
     (if \<not> tileIndex < MAP_SIZE then Inl Invalid_tile
      else Inr (tiles (players s player) ! unat tileIndex))"

subsection \<open>Transactions and reachable states\<close>

text \<open>
  The two state-changing entry points as one call type. A call that reverts leaves the
  whole state as it was (the ledger rolls the transaction back); \<open>transact\<close> is the
  state after the transaction either way.
\<close>

datatype call = JoinGame | Build uint8 externalEuint8 bytes

definition dispatch :: "address \<Rightarrow> call \<Rightarrow> VeilGame \<Rightarrow> revert + VeilGame" where
  "dispatch sender c s =
     (case c of
        JoinGame \<Rightarrow> joinGame sender s
      | Build tileIndex buildingType inputProof \<Rightarrow> build sender tileIndex buildingType inputProof s)"

definition transact :: "address \<Rightarrow> call \<Rightarrow> VeilGame \<Rightarrow> VeilGame" where
  "transact sender c s = (case dispatch sender c s of Inl _ \<Rightarrow> s | Inr s' \<Rightarrow> s')"

inductive reachable :: "VeilGame \<Rightarrow> bool" where
  deployed: "reachable (deploy this_address verifier)"
| transacted: "reachable s \<Longrightarrow> reachable (transact sender c s)"

subsection \<open>Specification vocabulary\<close>

text \<open>
  The Cost Table Evaluator in the spec's words: an ordered table of (type-code, cost)
  pairs, folded from a zero accumulator, every entry visited, the last match winning.
\<close>

definition cost_table :: "(uint8 \<times> uint32) list" where
  "cost_table = [(1, 100), (2, 200), (3, 400), (4, 1000)]"

definition table_cost :: "uint8 \<Rightarrow> uint32" where
  "table_cost t = foldl (\<lambda>acc (code, c). if t = code then c else acc) 0 cost_table"

text \<open>
  The provider calls \<^verbatim>\<open>_buildingCost\<close> makes on the type handle \<open>t\<close> when the next unused
  handle is \<open>n\<close>, and the calls the rest of \<^verbatim>\<open>build\<close> makes after them, on the balance
  handle \<open>bal\<close>, the type handle \<open>t\<close> and the old tile handle \<open>old\<close>.
\<close>

definition buildingCost_calls :: "nat \<Rightarrow> nat \<Rightarrow> fhe_call list" where
  "buildingCost_calls t n =
     [(OpTrivialEncrypt, [Clear 0], n),
      (OpEq, [Ct t, Clear 1], n + 1),
      (OpTrivialEncrypt, [Clear 100], n + 2),
      (OpSelect, [Ct (n + 1), Ct (n + 2), Ct n], n + 3),
      (OpEq, [Ct t, Clear 2], n + 4),
      (OpTrivialEncrypt, [Clear 200], n + 5),
      (OpSelect, [Ct (n + 4), Ct (n + 5), Ct (n + 3)], n + 6),
      (OpEq, [Ct t, Clear 3], n + 7),
      (OpTrivialEncrypt, [Clear 400], n + 8),
      (OpSelect, [Ct (n + 7), Ct (n + 8), Ct (n + 6)], n + 9),
      (OpEq, [Ct t, Clear 4], n + 10),
      (OpTrivialEncrypt, [Clear 1000], n + 11),
      (OpSelect, [Ct (n + 10), Ct (n + 11), Ct (n + 9)], n + 12)]"

definition commit_calls :: "nat \<Rightarrow> nat \<Rightarrow> nat \<Rightarrow> nat \<Rightarrow> fhe_call list" where
  "commit_calls bal t old n =
     [(OpNe, [Ct (n + 12), Clear 0], n + 13),
      (OpGe, [Ct bal, Ct (n + 12)], n + 14),
      (OpAnd, [Ct (n + 13), Ct (n + 14)], n + 15),
      (OpSub, [Ct bal, Ct (n + 12)], n + 16),
      (OpSelect, [Ct (n + 15), Ct (n + 16), Ct bal], n + 17),
      (OpSelect, [Ct (n + 15), Ct t, Ct old], n + 18)]"

text \<open>A handle is granted to exactly the owning identity and the contract itself.\<close>

definition granted :: "VeilGame \<Rightarrow> address \<Rightarrow> nat \<Rightarrow> bool" where
  "granted s owner h \<longleftrightarrow> acl (fhe s) h = {owner, address_this s}"

text \<open>
  What an observer without decryption rights sees: the join flags, the handles, the
  provider's public state (handle counter, authorisations, call log), and the events.
  Plaintexts are not part of it.
\<close>

definition public_player :: "PlayerState \<Rightarrow> bool \<times> nat \<times> nat list" where
  "public_player p = (joined p, handle (balance p), map handle (tiles p))"

definition public_view ::
  "VeilGame \<Rightarrow> (address \<Rightarrow> bool \<times> nat \<times> nat list) \<times> fhevm \<times> address \<times> event list" where
  "public_view s = (\<lambda>a. public_player (players s a), fhe s, address_this s, events s)"

text \<open>
  The invariant of the reachable states of this model. Its first conjunct, and with it
  the equalities on the authorisation sets, hold because the counter gives every result
  of a call an unused handle.
\<close>

definition state_inv :: "VeilGame \<Rightarrow> bool" where
  "state_inv s \<longleftrightarrow>
     (\<forall>h. next_handle (fhe s) \<le> h \<longrightarrow> acl (fhe s) h = {}) \<and>
     (\<forall>a. length (tiles (players s a)) = 9) \<and>
     (\<forall>a. \<not> joined (players s a) \<longrightarrow> players s a = empty_player) \<and>
     (\<forall>a. joined (players s a) \<longrightarrow>
          plain (balance (players s a)) \<le> STARTING_BALANCE \<and>
          handle (balance (players s a)) < next_handle (fhe s) \<and>
          granted s a (handle (balance (players s a))) \<and>
          (\<forall>t \<in> set (tiles (players s a)).
              handle t < next_handle (fhe s) \<and> granted s a (handle t)))"

text \<open>
  The record \<^verbatim>\<open>joinGame\<close> leaves for the caller when the next unused handle is \<open>n\<close>: the
  balance under handle \<open>n\<close>, the nine tiles under the handles \<open>n + 1\<close> to \<open>n + 9\<close>.
\<close>

definition joined_player :: "nat \<Rightarrow> PlayerState" where
  "joined_player n =
     \<lparr>joined = True,
      balance = \<lparr>handle = n, plain = 10000\<rparr>,
      tiles = map (\<lambda>k. \<lparr>handle = n + k, plain = 0\<rparr>) [1..<10]\<rparr>"

subsection \<open>The scenario of the test-suite\<close>

text \<open>
  \<^verbatim>\<open>test/VeilGame.ts\<close>: the contract is deployed, the signer \<^verbatim>\<open>alice\<close> joins and then
  builds with an encrypted input. The mock verifier accepts every non-empty proof.
\<close>

definition alice :: address where
  "alice = 1"

definition veilGameAddress :: address where
  "veilGameAddress = 2"

definition mock_verifier :: "address \<Rightarrow> nat \<Rightarrow> bytes \<Rightarrow> bool" where
  "mock_verifier sender h inputProof \<longleftrightarrow> inputProof \<noteq> []"

definition encryptedInput :: "uint8 \<Rightarrow> externalEuint8" where
  "encryptedInput v = \<lparr>handle = 4096, plain = v\<rparr>"

definition deployFixture :: VeilGame where
  "deployFixture = deploy veilGameAddress mock_verifier"

definition afterJoin :: VeilGame where
  "afterJoin = transact alice JoinGame deployFixture"

definition afterBuild :: VeilGame where
  "afterBuild = transact alice (Build 2 (encryptedInput 3) [1]) afterJoin"

text \<open>
  Two further states: the same build with the unrecognised type 9 instead (the third
  test of the suite, on tile 2), and \<open>k\<close> builds of the most expensive type 4 on tile 0.
\<close>

definition afterInvalid :: VeilGame where
  "afterInvalid = transact alice (Build 2 (encryptedInput 9) [1]) afterJoin"

definition afterSpending :: "nat \<Rightarrow> VeilGame" where
  "afterSpending k = ((transact alice (Build 0 (encryptedInput 4) [1])) ^^ k) afterJoin"

text \<open>A second signer, who joins after \<^verbatim>\<open>alice\<close>.\<close>

definition bob :: address where
  "bob = 3"

definition afterBothJoin :: VeilGame where
  "afterBothJoin = transact bob JoinGame afterJoin"

section \<open>Symbolic execution of the contract\<close>

lemmas fhe_defs = produce_def FHE_asEuint32_def FHE_asEuint8_def FHE_eq_def FHE_ne_def
  FHE_ge_def FHE_and_def FHE_sub_def FHE_select_def FHE_allow_def FHE_allowThis_def

subsection \<open>The cost evaluator\<close>

lemma buildingCost_eq:
  "buildingCost bt fh =
     (\<lparr>handle = next_handle fh + 12,
       plain = (if plain bt = 4 then 1000 else if plain bt = 3 then 400
                else if plain bt = 2 then 200 else if plain bt = 1 then 100 else 0)\<rparr>,
      fh\<lparr>next_handle := next_handle fh + 13,
         oplog := oplog fh @ buildingCost_calls (handle bt) (next_handle fh)\<rparr>)"
  by (simp add: buildingCost_def buildingCost_calls_def fhe_defs
        split del: if_split cong del: if_weak_cong)

lemma table_cost_eq:
  "table_cost t = (if t = 4 then 1000 else if t = 3 then 400
                   else if t = 2 then 200 else if t = 1 then 100 else 0)"
  by (simp add: table_cost_def cost_table_def)

subsection \<open>The loop of joinGame\<close>

lemma joinGame_loop_step:
  "i < MAP_SIZE \<Longrightarrow> unat i < length (tiles p) \<Longrightarrow>
   joinGame_loop sender this_address i (p, fh) =
   joinGame_loop sender this_address (i + 1)
     (p\<lparr>tiles := (tiles p)[unat i := \<lparr>handle = next_handle fh, plain = 0\<rparr>]\<rparr>,
      fh\<lparr>next_handle := Suc (next_handle fh),
         oplog := oplog fh @ [(OpTrivialEncrypt, [Clear 0], next_handle fh)],
         acl := (acl fh)(next_handle fh :=
                  insert sender (insert this_address (acl fh (next_handle fh))))\<rparr>)"
  by (subst joinGame_loop.simps) (simp add: fhe_defs)

lemma joinGame_loop_stop:
  "\<not> i < MAP_SIZE \<Longrightarrow> joinGame_loop sender this_address i (p, fh) = (p, fh)"
  by (subst joinGame_loop.simps) simp

lemma list9_update:
  "length xs = 9 \<Longrightarrow>
   xs[0 := x0, Suc 0 := x1, 2 := x2, 3 := x3, 4 := x4, 5 := x5, 6 := x6, 7 := x7, 8 := x8]
     = [x0, x1, x2, x3, x4, x5, x6, x7, x8]"
  by (auto simp: eval_nat_numeral length_Suc_conv)

lemma PlayerState_all_updated:
  "(p::PlayerState)\<lparr>joined := j, balance := b, tiles := t\<rparr> =
     \<lparr>joined = j, balance = b, tiles = t\<rparr>"
  by (cases p) simp

lemma acl_after_join:
  "f(Suc n := insert a (insert t (f (Suc n))),
     Suc (Suc n) := insert a (insert t (f (Suc (Suc n)))),
     Suc (Suc (Suc n)) := insert a (insert t (f (Suc (Suc (Suc n))))),
     Suc (Suc (Suc (Suc n))) := insert a (insert t (f (Suc (Suc (Suc (Suc n)))))),
     Suc (Suc (Suc (Suc (Suc n)))) :=
       insert a (insert t (f (Suc (Suc (Suc (Suc (Suc n))))))),
     Suc (Suc (Suc (Suc (Suc (Suc n))))) :=
       insert a (insert t (f (Suc (Suc (Suc (Suc (Suc (Suc n)))))))),
     Suc (Suc (Suc (Suc (Suc (Suc (Suc n)))))) :=
       insert a (insert t (f (Suc (Suc (Suc (Suc (Suc (Suc (Suc n))))))))),
     Suc (Suc (Suc (Suc (Suc (Suc (Suc (Suc n))))))) :=
       insert a (insert t (f (Suc (Suc (Suc (Suc (Suc (Suc (Suc (Suc n)))))))))),
     Suc (Suc (Suc (Suc (Suc (Suc (Suc (Suc (Suc n)))))))) :=
       insert a (insert t (f (Suc (Suc (Suc (Suc (Suc (Suc (Suc (Suc (Suc n))))))))))),
     n := insert a (insert t (f n)))
   = (\<lambda>h. if n \<le> h \<and> h < n + 10 then insert a (insert t (f h)) else f h)"
  by (rule ext) (simp, arith)

lemma handle_offsets:
  "(n::nat) + 3 = Suc (n + 2)" "n + 4 = Suc (n + 3)" "n + 5 = Suc (n + 4)"
  "n + 6 = Suc (n + 5)" "n + 7 = Suc (n + 6)" "n + 8 = Suc (n + 7)"
  "n + 9 = Suc (n + 8)" "n + 10 = Suc (n + 9)"
  by simp_all

lemma upt_1_10: "[Suc 0..<10] = [1, 2, 3, 4, 5, 6, 7, 8, 9::nat]"
  by (simp add: upt_rec)

lemma joined_player_simps:
  "joined (joined_player n) = True"
  "balance (joined_player n) = \<lparr>handle = n, plain = 10000\<rparr>"
  "length (tiles (joined_player n)) = 9"
  "k < 9 \<Longrightarrow> tiles (joined_player n) ! k = \<lparr>handle = n + 1 + k, plain = 0\<rparr>"
  by (simp_all add: joined_player_def nth_map_upt)

subsection \<open>Results of the two entry points\<close>

lemma joinGame_eq:
  assumes "\<not> joined (players s a)" and "length (tiles (players s a)) = 9"
  shows "joinGame a s =
     Inr (s\<lparr>players := (players s)(a := joined_player (next_handle (fhe s))),
            fhe := (fhe s)
              \<lparr>next_handle := next_handle (fhe s) + 10,
               oplog := oplog (fhe s) @
                  (OpTrivialEncrypt, [Clear 10000], next_handle (fhe s)) #
                  map (\<lambda>k. (OpTrivialEncrypt, [Clear 0], next_handle (fhe s) + k)) [1..<10],
               acl := (\<lambda>h. if next_handle (fhe s) \<le> h \<and> h < next_handle (fhe s) + 10
                            then insert a (insert (address_this s) (acl (fhe s) h))
                            else acl (fhe s) h)\<rparr>,
            events := events s @ [PlayerJoined a]\<rparr>)"
  using assms
  by (simp add: joinGame_def joinGame_loop_step joinGame_loop_stop MAP_SIZE_def fhe_defs
        list9_update joined_player_def upt_1_10 STARTING_BALANCE_def PlayerState_all_updated
        acl_after_join handle_offsets)

lemma build_eq:
  assumes "joined (players s a)" and "i < MAP_SIZE"
    and "unat i < length (tiles (players s a))"
    and "input_verifier (fhe s) a (handle bt) pf"
  shows "build a i bt pf s =
    (let n = next_handle (fhe s);
         p = players s a;
         c = plain (fst (buildingCost bt (fhe s)));
         commit = (c \<noteq> 0 \<and> c \<le> plain (balance p))
     in Inr (s\<lparr>players := (players s)(a := p
               \<lparr>balance := \<lparr>handle = n + 17,
                             plain = (if commit then plain (balance p) - c
                                      else plain (balance p))\<rparr>,
                tiles := (tiles p)[unat i :=
                            \<lparr>handle = n + 18,
                             plain = (if commit then plain bt
                                      else plain (tiles p ! unat i))\<rparr>]\<rparr>),
              fhe := (fhe s)
               \<lparr>next_handle := n + 19,
                oplog := oplog (fhe s) @ buildingCost_calls (handle bt) n @
                   commit_calls (handle (balance p)) (handle bt) (handle (tiles p ! unat i)) n,
                acl := (acl (fhe s))
                   (n + 17 := insert a (insert (address_this s) (acl (fhe s) (n + 17))),
                    n + 18 := insert a (insert (address_this s) (acl (fhe s) (n + 18))))\<rparr>,
              events := events s @ [BuildingPlaced a i]\<rparr>))"
  using assms
  by (simp add: build_def buildingCost_eq commit_calls_def FHE_fromExternal_def fhe_defs
        Let_def add.commute split del: if_split cong del: if_weak_cong)

lemma joinGame_rejects: "joined (players s a) \<Longrightarrow> joinGame a s = Inl Already_joined"
  by (simp add: joinGame_def)

lemma build_rejects_not_joined:
  "\<not> joined (players s a) \<Longrightarrow> build a i bt pf s = Inl Join_first"
  by (simp add: build_def)

lemma build_rejects_tile:
  "joined (players s a) \<Longrightarrow> \<not> i < MAP_SIZE \<Longrightarrow> build a i bt pf s = Inl Invalid_tile"
  by (simp add: build_def)

lemma build_rejects_proof:
  "joined (players s a) \<Longrightarrow> i < MAP_SIZE \<Longrightarrow>
   \<not> input_verifier (fhe s) a (handle bt) pf \<Longrightarrow>
   build a i bt pf s = Inl Invalid_proof"
  by (simp add: build_def FHE_fromExternal_def)

lemma build_Inr_D:
  assumes "build a i bt pf s = Inr s'"
  shows "joined (players s a)" and "i < MAP_SIZE"
    and "input_verifier (fhe s) a (handle bt) pf"
  using assms build_rejects_not_joined [of s a i bt pf] build_rejects_tile [of s a i bt pf]
    build_rejects_proof [of s a i bt pf] by auto

lemma joinGame_Inr_D: "joinGame a s = Inr s' \<Longrightarrow> \<not> joined (players s a)"
  using joinGame_rejects [of s a] by auto

lemma unat_tile_index: "i < MAP_SIZE \<Longrightarrow> unat i < 9"
  by (simp add: MAP_SIZE_def word_less_nat_alt)

lemma transact_joinGame: "joinGame a s = Inr s' \<Longrightarrow> transact a JoinGame s = s'"
  by (simp add: transact_def dispatch_def)


section \<open>The invariant of the reachable states\<close>

lemma state_inv_deploy: "state_inv (deploy t v)"
  by (simp add: state_inv_def deploy_def empty_player_def MAP_SIZE_def)

lemma state_invD:
  assumes "state_inv s"
  shows "next_handle (fhe s) \<le> h \<Longrightarrow> acl (fhe s) h = {}"
    and "length (tiles (players s b)) = 9"
    and "\<not> joined (players s b) \<Longrightarrow> players s b = empty_player"
    and "joined (players s b) \<Longrightarrow> plain (balance (players s b)) \<le> STARTING_BALANCE"
    and "joined (players s b) \<Longrightarrow> handle (balance (players s b)) < next_handle (fhe s)"
    and "joined (players s b) \<Longrightarrow>
           acl (fhe s) (handle (balance (players s b))) = {b, address_this s}"
    and "joined (players s b) \<Longrightarrow> t \<in> set (tiles (players s b)) \<Longrightarrow>
           handle t < next_handle (fhe s)"
    and "joined (players s b) \<Longrightarrow> t \<in> set (tiles (players s b)) \<Longrightarrow>
           acl (fhe s) (handle t) = {b, address_this s}"
  using assms unfolding state_inv_def granted_def by blast+

lemma state_inv_joinGame:
  assumes inv: "state_inv s" and ok: "joinGame a s = Inr s'"
  shows "state_inv s'"
proof -
  note d = state_invD [OF inv]
  have nj: "\<not> joined (players s a)" using ok by (rule joinGame_Inr_D)
  have s': "s' = s\<lparr>players := (players s)(a := joined_player (next_handle (fhe s))),
            fhe := (fhe s)
              \<lparr>next_handle := next_handle (fhe s) + 10,
               oplog := oplog (fhe s) @
                  (OpTrivialEncrypt, [Clear 10000], next_handle (fhe s)) #
                  map (\<lambda>k. (OpTrivialEncrypt, [Clear 0], next_handle (fhe s) + k)) [1..<10],
               acl := (\<lambda>h. if next_handle (fhe s) \<le> h \<and> h < next_handle (fhe s) + 10
                            then insert a (insert (address_this s) (acl (fhe s) h))
                            else acl (fhe s) h)\<rparr>,
            events := events s @ [PlayerJoined a]\<rparr>"
    using ok joinGame_eq [OF nj d(2)] by simp
  show ?thesis
    unfolding s' state_inv_def granted_def
    apply (intro conjI allI impI ballI)
    subgoal for h using d(1) [of h] by simp
    subgoal for b using d(2) [of b] by (simp add: joined_player_def)
    subgoal for b using d(3) [of b] by (simp add: joined_player_def split: if_splits)
    subgoal for b using d(4) [of b]
      by (simp add: joined_player_def STARTING_BALANCE_def split: if_splits)
    subgoal for b using d(5) [of b] by (simp add: joined_player_def split: if_splits)
    subgoal for b using d(5,6) [of b] d(1) [of "next_handle (fhe s)"]
      by (auto simp add: joined_player_def split: if_splits)
    subgoal for b t using d(7) [of b t] by (auto simp add: joined_player_def split: if_splits)
    subgoal for b t using d(7,8) [of b t] d(1) [of "handle t"]
      by (auto simp add: joined_player_def split: if_splits)
    done
qed

lemma sub_keeps_bound: "c \<le> b \<Longrightarrow> b \<le> m \<Longrightarrow> b - c \<le> (m::uint32)"
  by (meson word_sub_le order_trans)

lemma set_update_cases: "t \<in> set (xs[k := x]) \<Longrightarrow> t = x \<or> t \<in> set xs"
  by (meson insertE set_update_subset_insert subsetD)

lemma state_inv_build:
  assumes inv: "state_inv s" and ok: "build a i bt pf s = Inr s'"
  shows "state_inv s'"
proof -
  note d = state_invD [OF inv]
  note pre = build_Inr_D [OF ok]
  have len: "unat i < length (tiles (players s a))"
    using d(2) [of a] unat_tile_index [OF pre(2)] by simp
  have s': "Inr s' = build a i bt pf s" using ok by simp
  show ?thesis
    using inj_Inr [THEN injD, OF s' [unfolded build_eq [OF pre(1,2) len pre(3)] Let_def]]
    unfolding state_inv_def granted_def
    apply (intro conjI allI impI ballI)
    subgoal for h using d(1) [of h] by auto
    subgoal for b using d(2) [of b] by auto
    subgoal for b using d(3) [of b] pre(1) by (auto split: if_splits)
    subgoal for b using d(4) [of b] pre(1)
      by (auto simp: sub_keeps_bound split: if_splits)
    subgoal for b using d(5) [of b] by (auto split: if_splits)
    subgoal for b using d(5,6) [of b] d(1) [of "next_handle (fhe s) + 17"]
      by (auto split: if_splits)
    subgoal for b t using d(7) [of b t] by (auto split: if_splits dest!: set_update_cases)
    subgoal for b t using d(7,8) [of b t] d(1) [of "next_handle (fhe s) + 18"]
      by (auto split: if_splits dest!: set_update_cases)
    done
qed

lemma state_inv_transact: "state_inv s \<Longrightarrow> state_inv (transact a c s)"
  by (cases c)
     (auto simp: transact_def dispatch_def split: sum.splits
           intro: state_inv_joinGame state_inv_build)

lemma reachable_inv: "reachable s \<Longrightarrow> state_inv s"
  by (induction rule: reachable.induct) (simp_all add: state_inv_deploy state_inv_transact)

lemma reachable_tiles_length: "reachable s \<Longrightarrow> length (tiles (players s a)) = 9"
  by (rule state_invD(2) [OF reachable_inv])

lemma reachable_balance_bound:
  "reachable s \<Longrightarrow> joined (players s a) \<Longrightarrow>
   plain (balance (players s a)) \<le> STARTING_BALANCE"
  by (rule state_invD(4) [OF reachable_inv])


lemma joinGame_succeeds:
  assumes "reachable s" and "\<not> joined (players s a)"
  shows "joinGame a s =
     Inr (s\<lparr>players := (players s)(a := joined_player (next_handle (fhe s))),
            fhe := (fhe s)
              \<lparr>next_handle := next_handle (fhe s) + 10,
               oplog := oplog (fhe s) @
                  (OpTrivialEncrypt, [Clear 10000], next_handle (fhe s)) #
                  map (\<lambda>k. (OpTrivialEncrypt, [Clear 0], next_handle (fhe s) + k)) [1..<10],
               acl := (\<lambda>h. if next_handle (fhe s) \<le> h \<and> h < next_handle (fhe s) + 10
                            then insert a (insert (address_this s) (acl (fhe s) h))
                            else acl (fhe s) h)\<rparr>,
            events := events s @ [PlayerJoined a]\<rparr>)"
  using assms(2) reachable_tiles_length [OF assms(1)] by (rule joinGame_eq)

lemma build_succeeds:
  assumes "reachable s" and "joined (players s a)" and "i < MAP_SIZE"
    and "input_verifier (fhe s) a (handle bt) pf"
  shows "build a i bt pf s =
    (let n = next_handle (fhe s);
         p = players s a;
         c = plain (fst (buildingCost bt (fhe s)));
         commit = (c \<noteq> 0 \<and> c \<le> plain (balance p))
     in Inr (s\<lparr>players := (players s)(a := p
               \<lparr>balance := \<lparr>handle = n + 17,
                             plain = (if commit then plain (balance p) - c
                                      else plain (balance p))\<rparr>,
                tiles := (tiles p)[unat i :=
                            \<lparr>handle = n + 18,
                             plain = (if commit then plain bt
                                      else plain (tiles p ! unat i))\<rparr>]\<rparr>),
              fhe := (fhe s)
               \<lparr>next_handle := n + 19,
                oplog := oplog (fhe s) @ buildingCost_calls (handle bt) n @
                   commit_calls (handle (balance p)) (handle bt) (handle (tiles p ! unat i)) n,
                acl := (acl (fhe s))
                   (n + 17 := insert a (insert (address_this s) (acl (fhe s) (n + 17))),
                    n + 18 := insert a (insert (address_this s) (acl (fhe s) (n + 18))))\<rparr>,
              events := events s @ [BuildingPlaced a i]\<rparr>))"
  using assms reachable_tiles_length [OF assms(1), of a] unat_tile_index [OF assms(3)]
  by (intro build_eq) simp_all

section \<open>The scenario of the test-suite, evaluated\<close>

lemma encryptedInput_simps:
  "plain (encryptedInput v) = v" "handle (encryptedInput v) = 4096"
  by (simp_all add: encryptedInput_def)

lemma test_cost:
  "plain (fst (buildingCost (encryptedInput 3) fh)) = 400"
  "plain (fst (buildingCost (encryptedInput 9) fh)) = 0"
  "plain (fst (buildingCost (encryptedInput 1) fh)) = 100"
  by (simp_all add: buildingCost_eq encryptedInput_def)

lemma deployFixture_reachable: "reachable deployFixture"
  by (simp add: deployFixture_def reachable.deployed)

lemma deployFixture_simps:
  "players deployFixture a = empty_player"
  "next_handle (fhe deployFixture) = 1"
  "input_verifier (fhe deployFixture) = mock_verifier"
  "address_this deployFixture = veilGameAddress"
  by (simp_all add: deployFixture_def deploy_def)

lemma deploy_not_joined: "\<not> joined (players deployFixture alice)"
  by (simp add: deployFixture_simps empty_player_def)

lemma afterJoin_reachable: "reachable afterJoin"
  unfolding afterJoin_def by (rule reachable.transacted [OF deployFixture_reachable])

lemma afterJoin_simps:
  "players afterJoin alice = joined_player 1"
  "next_handle (fhe afterJoin) = 11"
  "input_verifier (fhe afterJoin) = mock_verifier"
  "address_this afterJoin = veilGameAddress"
proof -
  note eq = joinGame_succeeds [OF deployFixture_reachable deploy_not_joined]
  show "players afterJoin alice = joined_player 1"
    by (simp add: afterJoin_def transact_def dispatch_def eq deployFixture_simps)
  show "next_handle (fhe afterJoin) = 11"
    by (simp add: afterJoin_def transact_def dispatch_def eq deployFixture_simps)
  show "input_verifier (fhe afterJoin) = mock_verifier"
    by (simp add: afterJoin_def transact_def dispatch_def eq deployFixture_simps)
  show "address_this afterJoin = veilGameAddress"
    by (simp add: afterJoin_def transact_def dispatch_def eq deployFixture_simps)
qed

lemma test_preconditions:
  "joined (players afterJoin alice)"
  "(2::uint8) < MAP_SIZE"
  "input_verifier (fhe afterJoin) alice (handle (encryptedInput v)) [1]"
  by (simp_all add: afterJoin_simps joined_player_simps MAP_SIZE_def mock_verifier_def)

lemma afterBuild_reachable: "reachable afterBuild"
  unfolding afterBuild_def by (rule reachable.transacted [OF afterJoin_reachable])

lemma afterBuild_simps:
  "joined (players afterBuild alice)"
  "plain (balance (players afterBuild alice)) = 9600"
  "plain (tiles (players afterBuild alice) ! 2) = 3"
  "input_verifier (fhe afterBuild) = mock_verifier"
proof -
  note eq = build_succeeds [OF afterJoin_reachable test_preconditions(1,2)
      test_preconditions(3) [of 3]]
  show "joined (players afterBuild alice)"
    by (simp add: afterBuild_def transact_def dispatch_def eq Let_def afterJoin_simps
          joined_player_simps)
  show "plain (balance (players afterBuild alice)) = 9600"
    by (simp add: afterBuild_def transact_def dispatch_def eq Let_def afterJoin_simps
          joined_player_simps test_cost)
  show "plain (tiles (players afterBuild alice) ! 2) = 3"
    by (simp add: afterBuild_def transact_def dispatch_def eq Let_def afterJoin_simps
          joined_player_simps test_cost encryptedInput_simps)
  show "input_verifier (fhe afterBuild) = mock_verifier"
    by (simp add: afterBuild_def transact_def dispatch_def eq Let_def afterJoin_simps)
qed

lemma afterBuild_preconditions:
  "input_verifier (fhe afterBuild) alice (handle (encryptedInput v)) [1]"
  "plain (tiles (players afterBuild alice) ! unat (2::uint8)) \<noteq> 0"
  "plain (fst (buildingCost (encryptedInput 1) (fhe afterBuild))) \<noteq> 0"
  "plain (fst (buildingCost (encryptedInput 1) (fhe afterBuild)))
     \<le> plain (balance (players afterBuild alice))"
  by (simp_all add: afterBuild_simps mock_verifier_def test_cost)

lemma afterInvalid_reachable: "reachable afterInvalid"
  unfolding afterInvalid_def by (rule reachable.transacted [OF afterJoin_reachable])

lemma afterInvalid_simps:
  "plain (balance (players afterInvalid alice)) = 10000"
proof -
  note eq = build_succeeds [OF afterJoin_reachable test_preconditions(1,2)
      test_preconditions(3) [of 9]]
  show ?thesis
    by (simp add: afterInvalid_def transact_def dispatch_def eq Let_def afterJoin_simps
          joined_player_simps test_cost)
qed

lemma test_cost_4: "plain (fst (buildingCost (encryptedInput 4) fh)) = 1000"
  by (simp add: buildingCost_eq encryptedInput_def)

lemma afterSpending_Suc:
  "afterSpending (Suc k) = transact alice (Build 0 (encryptedInput 4) [1]) (afterSpending k)"
  by (simp add: afterSpending_def)

lemma afterSpending_props:
  "k \<le> 10 \<Longrightarrow>
     reachable (afterSpending k) \<and> joined (players (afterSpending k) alice) \<and>
     input_verifier (fhe (afterSpending k)) = mock_verifier \<and>
     unat (plain (balance (players (afterSpending k) alice))) = 10000 - 1000 * k"
proof (induction k)
  case 0
  show ?case
    by (simp add: afterSpending_def afterJoin_reachable afterJoin_simps joined_player_simps)
next
  case (Suc k)
  then have r: "reachable (afterSpending k)" and j: "joined (players (afterSpending k) alice)"
    and v: "input_verifier (fhe (afterSpending k)) = mock_verifier"
    and b: "unat (plain (balance (players (afterSpending k) alice))) = 10000 - 1000 * k"
    and k: "k < 10"
    by simp_all
  have z: "(0::uint8) < MAP_SIZE" by (simp add: MAP_SIZE_def)
  have v': "input_verifier (fhe (afterSpending k)) alice (handle (encryptedInput 4)) [1]"
    by (simp add: v mock_verifier_def)
  have le: "(1000::uint32) \<le> plain (balance (players (afterSpending k) alice))"
    using b k by (simp add: word_le_nat_alt)
  note eq = build_succeeds [OF r j z v']
  have "reachable (afterSpending (Suc k))"
    unfolding afterSpending_Suc by (rule reachable.transacted [OF r])
  moreover have "joined (players (afterSpending (Suc k)) alice)"
    using j by (simp add: afterSpending_Suc transact_def dispatch_def eq Let_def)
  moreover have "input_verifier (fhe (afterSpending (Suc k))) = mock_verifier"
    using v by (simp add: afterSpending_Suc transact_def dispatch_def eq Let_def)
  moreover have "unat (plain (balance (players (afterSpending (Suc k)) alice)))
      = 10000 - 1000 * Suc k"
    using le b by (simp add: afterSpending_Suc transact_def dispatch_def eq Let_def test_cost_4
        unat_sub)
  ultimately show ?case by simp
qed

lemma afterSpending_10:
  "reachable (afterSpending 10)" "joined (players (afterSpending 10) alice)"
  "input_verifier (fhe (afterSpending 10)) alice (handle (encryptedInput v)) [1]"
  "plain (balance (players (afterSpending 10) alice)) = 0"
  using afterSpending_props [of 10] by (simp_all add: mock_verifier_def unat_eq_0)

section \<open>The claims\<close>

subsection \<open>C1: a build applies the purchase or keeps the state, through selects either way\<close>

text \<open>
  Claim C1. In a reachable state, for a joined caller, an index below \<open>MAP_SIZE\<close> and an
  input whose proof verifies, \<open>build\<close> succeeds. With \<open>c\<close> the plaintext of the cost that
  \<open>buildingCost\<close> returns for the input and \<open>b\<close> the plaintext of the old balance: when
  \<open>c \<noteq> 0\<close> and \<open>c \<le> b\<close>, the new balance decrypts to \<open>b - c\<close> (without wrap-around) and
  the tile at the index decrypts to the input type; when \<open>c = 0\<close> or \<open>b < c\<close>, the balance
  and that tile decrypt to what they did before. In both cases the stored balance and
  tile are new ciphertexts, the results of the two \<open>OpSelect\<close> calls that end the call log.
\<close>

theorem build_applies_or_keeps:
  assumes "reachable s" and "joined (players s a)" and "i < MAP_SIZE"
    and "input_verifier (fhe s) a (handle bt) pf"
  shows "\<exists>s'. build a i bt pf s = Inr s' \<and>
    (let n = next_handle (fhe s);
         p = players s a; p' = players s' a;
         c = plain (fst (buildingCost bt (fhe s)))
     in (c \<noteq> 0 \<and> c \<le> plain (balance p) \<longrightarrow>
           plain (balance p') = plain (balance p) - c \<and>
           unat (plain (balance p')) = unat (plain (balance p)) - unat c \<and>
           plain (tiles p' ! unat i) = plain bt) \<and>
        (c = 0 \<or> plain (balance p) < c \<longrightarrow>
           plain (balance p') = plain (balance p) \<and>
           plain (tiles p' ! unat i) = plain (tiles p ! unat i)) \<and>
        handle (balance p') = n + 17 \<and>
        handle (tiles p' ! unat i) = n + 18 \<and>
        oplog (fhe s') = oplog (fhe s) @ buildingCost_calls (handle bt) n @
           commit_calls (handle (balance p)) (handle bt) (handle (tiles p ! unat i)) n \<and>
        drop 4 (commit_calls (handle (balance p)) (handle bt) (handle (tiles p ! unat i)) n) =
          [(OpSelect, [Ct (n + 15), Ct (n + 16), Ct (handle (balance p))], handle (balance p')),
           (OpSelect, [Ct (n + 15), Ct (handle bt), Ct (handle (tiles p ! unat i))],
              handle (tiles p' ! unat i))])"
proof -
  have len: "unat i < length (tiles (players s a))"
    using reachable_tiles_length [OF assms(1), of a] unat_tile_index [OF assms(3)] by simp
  show ?thesis
    unfolding build_succeeds [OF assms]
    using len by (auto simp: Let_def unat_sub commit_calls_def)
qed

text \<open>
  The second test of the suite: after joining, building type 3 on tile 2 leaves the
  balance at 9600 and the tile at 3. The third test: building the unrecognised type 9
  on tile 1 leaves the balance at 10000 and the tile at 0. And once the balance is
  spent, building type 1 leaves balance and tile at 0.
\<close>

theorem build_applies_or_keeps_witness:
  "reachable afterJoin \<and> joined (players afterJoin alice) \<and> (2::uint8) < MAP_SIZE \<and>
   input_verifier (fhe afterJoin) alice (handle (encryptedInput 3)) [1] \<and>
   (\<exists>s'. build alice 2 (encryptedInput 3) [1] afterJoin = Inr s' \<and>
      plain (balance (players s' alice)) = 9600 \<and>
      plain (tiles (players s' alice) ! 2) = 3 \<and>
      handle (balance (players s' alice)) = 28 \<and>
      handle (tiles (players s' alice) ! 2) = 29) \<and>
   (1::uint8) < MAP_SIZE \<and>
   plain (fst (buildingCost (encryptedInput 9) (fhe afterJoin))) = 0 \<and>
   (\<exists>s'. build alice 1 (encryptedInput 9) [1] afterJoin = Inr s' \<and>
      plain (balance (players s' alice)) = 10000 \<and>
      plain (tiles (players s' alice) ! 1) = 0 \<and>
      handle (balance (players s' alice)) = 28 \<and>
      handle (tiles (players s' alice) ! 1) = 29) \<and>
   reachable (afterSpending 10) \<and> joined (players (afterSpending 10) alice) \<and>
   input_verifier (fhe (afterSpending 10)) alice (handle (encryptedInput 1)) [1] \<and>
   plain (balance (players (afterSpending 10) alice))
     < plain (fst (buildingCost (encryptedInput 1) (fhe (afterSpending 10)))) \<and>
   (\<exists>s'. build alice 1 (encryptedInput 1) [1] (afterSpending 10) = Inr s' \<and>
      plain (balance (players s' alice)) = 0 \<and>
      plain (tiles (players s' alice) ! 1)
        = plain (tiles (players (afterSpending 10) alice) ! 1))"
proof -
  have one: "(1::uint8) < MAP_SIZE" by (simp add: MAP_SIZE_def)
  show ?thesis
    using build_applies_or_keeps [OF afterJoin_reachable test_preconditions(1,2)
        test_preconditions(3) [of 3]]
      build_applies_or_keeps [OF afterJoin_reachable test_preconditions(1) one
        test_preconditions(3) [of 9]]
      build_applies_or_keeps [OF afterSpending_10(1,2) one afterSpending_10(3) [of 1]]
      afterJoin_reachable test_preconditions(1,2) test_preconditions(3) [of 3] one
      afterSpending_10(1,2) afterSpending_10(3) [of 1] afterSpending_10(4)
    by (auto simp: Let_def test_cost afterJoin_simps joined_player_simps encryptedInput_simps)
qed

subsection \<open>C2: joinGame initialises the record\<close>

text \<open>
  Claim C2. In a reachable state, for a caller who has not joined, \<open>joinGame\<close> succeeds;
  afterwards the caller is joined, the balance is the trivial encryption of
  \<open>STARTING_BALANCE = 10000\<close> and each of the nine tiles is a trivial encryption of \<open>0\<close>.
\<close>

theorem joinGame_initialises:
  assumes "reachable s" and "\<not> joined (players s a)"
  shows "\<exists>s'. joinGame a s = Inr s' \<and>
     joined (players s' a) \<and>
     plain (balance (players s' a)) = STARTING_BALANCE \<and>
     STARTING_BALANCE = 10000 \<and>
     (OpTrivialEncrypt, [Clear 10000], handle (balance (players s' a)))
        \<in> set (oplog (fhe s')) \<and>
     length (tiles (players s' a)) = 9 \<and>
     (\<forall>k<9. plain (tiles (players s' a) ! k) = 0 \<and>
        (OpTrivialEncrypt, [Clear 0], handle (tiles (players s' a) ! k))
           \<in> set (oplog (fhe s')))"
  unfolding joinGame_succeeds [OF assms]
  by (auto simp: joined_player_simps STARTING_BALANCE_def)

theorem joinGame_initialises_witness:
  "reachable deployFixture \<and> \<not> joined (players deployFixture alice) \<and>
   (\<exists>s'. joinGame alice deployFixture = Inr s' \<and>
      joined (players s' alice) \<and>
      plain (balance (players s' alice)) = 10000 \<and>
      (\<forall>k<9. plain (tiles (players s' alice) ! k) = 0))"
  using joinGame_initialises [OF deployFixture_reachable deploy_not_joined]
    deployFixture_reachable deploy_not_joined
  by auto

subsection \<open>C3: the cost evaluator\<close>

text \<open>
  Claim C3. The plaintext of the cost that \<open>buildingCost\<close> returns is the table lookup
  of the spec (\<open>table_cost\<close>: zero accumulator, every entry visited in order, last match
  wins): 100, 200, 400 and 1000 for the type codes 1 to 4, and 0 for every other code.
  The provider calls it makes are always the same thirteen, starting with the
  encryption of zero and holding one comparison and one select per table entry.
\<close>

theorem buildingCost_evaluates_table:
  "plain (fst (buildingCost bt fh)) = table_cost (plain bt) \<and>
   table_cost 1 = 100 \<and> table_cost 2 = 200 \<and> table_cost 3 = 400 \<and> table_cost 4 = 1000 \<and>
   (plain bt \<notin> {1, 2, 3, 4} \<longrightarrow> plain (fst (buildingCost bt fh)) = 0) \<and>
   oplog (snd (buildingCost bt fh)) = oplog fh @ buildingCost_calls (handle bt) (next_handle fh)"
  by (simp add: buildingCost_eq table_cost_eq)

theorem buildingCost_evaluates_table_witness:
  "plain (encryptedInput 9) \<notin> {1, 2, 3, 4} \<and>
   plain (fst (buildingCost (encryptedInput 9) (fhe deployFixture))) = 0 \<and>
   plain (fst (buildingCost (encryptedInput 3) (fhe deployFixture))) = 400"
  using buildingCost_evaluates_table [of "encryptedInput 9" "fhe deployFixture"]
    buildingCost_evaluates_table [of "encryptedInput 3" "fhe deployFixture"]
  by (simp add: encryptedInput_simps table_cost_eq)

subsection \<open>C4: the authorisations a call adds\<close>








text \<open>
  Why the amended claim does not say that nobody else is authorised. After \<^verbatim>\<open>alice\<close> and
  \<^verbatim>\<open>bob\<close> have joined, their balances are the results of two equal provider calls, the
  trivial encryption of 10000. Named by the counter they are the handles 1 and 11, each
  authorised for its owner and the contract. A provider that derives the handle from the
  operation and its operands gives both results one handle, and on it \<^verbatim>\<open>alice\<close>, \<^verbatim>\<open>bob\<close>
  and the contract are authorised. The contract asks for the same authorisations in
  both cases.
\<close>

lemma equal_calls_behind_two_balances:
  "alice \<noteq> bob \<and>
   joined (players afterBothJoin alice) \<and> joined (players afterBothJoin bob) \<and>
   handle (balance (players afterBothJoin alice)) = 1 \<and>
   handle (balance (players afterBothJoin bob)) = 11 \<and>
   (OpTrivialEncrypt, [Clear 10000], 1) \<in> set (oplog (fhe afterBothJoin)) \<and>
   (OpTrivialEncrypt, [Clear 10000], 11) \<in> set (oplog (fhe afterBothJoin)) \<and>
   alice \<in> acl (fhe afterBothJoin) 1 \<and> bob \<in> acl (fhe afterBothJoin) 11"
proof -
  have ne: "alice \<noteq> bob" by (simp add: alice_def bob_def)
  note eq1 = joinGame_succeeds [OF deployFixture_reachable deploy_not_joined]
  have aj: "players afterJoin bob = empty_player"
    "(OpTrivialEncrypt, [Clear 10000], 1) \<in> set (oplog (fhe afterJoin))"
    "alice \<in> acl (fhe afterJoin) 1"
    using ne by (simp_all add: afterJoin_def transact_def dispatch_def eq1 deployFixture_simps)
  have nj: "\<not> joined (players afterJoin bob)"
    by (simp add: aj(1) empty_player_def)
  note eq2 = joinGame_succeeds [OF afterJoin_reachable nj]
  show ?thesis
    using ne aj(2,3)
    by (simp add: afterBothJoin_def transact_def dispatch_def eq2 afterJoin_simps
          joined_player_simps)
qed

subsection \<open>C5: the outcome of build does not depend on the plaintexts\<close>

lemma public_viewD:
  assumes "public_view s1 = public_view s2"
  shows "fhe s1 = fhe s2" and "address_this s1 = address_this s2" and "events s1 = events s2"
    and "joined (players s1 a) = joined (players s2 a)"
    and "handle (balance (players s1 a)) = handle (balance (players s2 a))"
    and "map handle (tiles (players s1 a)) = map handle (tiles (players s2 a))"
  using assms by (auto simp: public_view_def public_player_def fun_eq_iff)

lemma same_handle_at:
  assumes "map handle xs = map handle ys" and "k < length xs"
  shows "handle (xs ! k) = handle (ys ! k)"
proof -
  have "length ys = length xs" using assms(1) by (metis length_map)
  then show ?thesis using assms nth_map [of k xs handle] nth_map [of k ys handle] by simp
qed

text \<open>
  Claim C5. Take two reachable states with the same public view (they may differ in
  every plaintext, the balance included) and two inputs under the same handle (they may
  differ in the encrypted type). Then \<open>build\<close>, for the same caller, index and proof,
  either reverts with the same error in both or succeeds in both, and the resulting
  public views (handles, authorisations, the log of provider calls, events) are equal.
  For a joined caller, an index below \<open>MAP_SIZE\<close> and a proof that verifies it succeeds,
  whatever the plaintexts are.
\<close>

theorem build_outcome_is_public:
  assumes "reachable s1" and "reachable s2" and "public_view s1 = public_view s2"
    and "handle bt1 = handle bt2"
  shows "map_sum id public_view (build a i bt1 pf s1) =
           map_sum id public_view (build a i bt2 pf s2) \<and>
         (joined (players s1 a) \<and> i < MAP_SIZE \<and> input_verifier (fhe s1) a (handle bt1) pf \<longrightarrow>
            (\<exists>s1' s2'. build a i bt1 pf s1 = Inr s1' \<and> build a i bt2 pf s2 = Inr s2' \<and>
                public_view s1' = public_view s2'))"
proof -
  note v = public_viewD [OF assms(3)]
  consider (not_joined) "\<not> joined (players s1 a)"
    | (bad_tile) "joined (players s1 a)" "\<not> i < MAP_SIZE"
    | (bad_proof) "joined (players s1 a)" "i < MAP_SIZE"
        "\<not> input_verifier (fhe s1) a (handle bt1) pf"
    | (ok) "joined (players s1 a)" "i < MAP_SIZE" "input_verifier (fhe s1) a (handle bt1) pf"
    by blast
  then show ?thesis
  proof cases
    case not_joined
    then show ?thesis using v(4) [of a] by (simp add: build_rejects_not_joined)
  next
    case bad_tile
    then show ?thesis using v(4) [of a] by (simp add: build_rejects_tile)
  next
    case bad_proof
    then show ?thesis using v(4) [of a] v(1) assms(4) by (simp add: build_rejects_proof)
  next
    case ok
    have ok2: "joined (players s2 a)" "input_verifier (fhe s2) a (handle bt2) pf"
      using ok v(4) [of a] v(1) assms(4) by simp_all
    have len: "unat i < length (tiles (players s1 a))"
      using reachable_tiles_length [OF assms(1), of a] unat_tile_index [OF ok(2)] by simp
    have old: "handle (tiles (players s1 a) ! unat i) = handle (tiles (players s2 a) ! unat i)"
      using v(6) [of a] len by (rule same_handle_at)
    have "public_view (projr (build a i bt1 pf s1)) = public_view (projr (build a i bt2 pf s2))"
      unfolding build_succeeds [OF assms(1) ok] build_succeeds [OF assms(2) ok2(1) ok(2) ok2(2)]
      using v(1,2,3) v(4,5,6) old assms(4)
      by (auto simp: Let_def public_view_def public_player_def fun_eq_iff map_update)
    moreover have "\<exists>s1'. build a i bt1 pf s1 = Inr s1'" "\<exists>s2'. build a i bt2 pf s2 = Inr s2'"
      unfolding build_succeeds [OF assms(1) ok] build_succeeds [OF assms(2) ok2(1) ok(2) ok2(2)]
      by (simp_all add: Let_def)
    ultimately show ?thesis by auto
  qed
qed

text \<open>
  The states after a build of the recognised type 3 and after a build of the unrecognised
  type 9 hold different balances (9600 and 10000) behind the same public view; a further
  build on either, of types 4 and 1, succeeds on both and leaves the same public view.
\<close>

theorem build_outcome_is_public_witness:
  "reachable afterBuild \<and> reachable afterInvalid \<and>
   public_view afterBuild = public_view afterInvalid \<and>
   plain (balance (players afterBuild alice)) \<noteq> plain (balance (players afterInvalid alice)) \<and>
   handle (encryptedInput 4) = handle (encryptedInput 1) \<and>
   plain (encryptedInput 4) \<noteq> plain (encryptedInput 1) \<and>
   joined (players afterBuild alice) \<and> (0::uint8) < MAP_SIZE \<and>
   input_verifier (fhe afterBuild) alice (handle (encryptedInput 4)) [1] \<and>
   (\<exists>s1' s2'. build alice 0 (encryptedInput 4) [1] afterBuild = Inr s1' \<and>
       build alice 0 (encryptedInput 1) [1] afterInvalid = Inr s2' \<and>
       public_view s1' = public_view s2')"
proof -
  have h: "handle (encryptedInput v) = handle (encryptedInput w)" for v w :: uint8
    by (simp add: encryptedInput_simps)
  have "\<exists>s1' s2'. build alice 2 (encryptedInput 3) [1] afterJoin = Inr s1' \<and>
       build alice 2 (encryptedInput 9) [1] afterJoin = Inr s2' \<and>
       public_view s1' = public_view s2'"
    using build_outcome_is_public [OF afterJoin_reachable afterJoin_reachable refl h,
        of alice 2 3 "[1]" 9]
      test_preconditions(1,2) test_preconditions(3) [of 3]
    by simp
  then have pv: "public_view afterBuild = public_view afterInvalid"
    by (auto simp: afterBuild_def afterInvalid_def transact_def dispatch_def)
  have z: "(0::uint8) < MAP_SIZE" by (simp add: MAP_SIZE_def)
  show ?thesis
    using build_outcome_is_public [OF afterBuild_reachable afterInvalid_reachable pv h,
        of alice 0 4 "[1]" 1]
      afterBuild_reachable afterInvalid_reachable pv afterBuild_simps(1,2) afterInvalid_simps z
      afterBuild_preconditions(1) [of 4]
    by (simp add: encryptedInput_simps)
qed

subsection \<open>C6: the rejected calls\<close>

text \<open>
  Claim C6, as stated, has \<open>build\<close> fail with \<^verbatim>\<open>IndexOutOfRange\<close> exactly when the index is
  outside 0..8. The contract checks the join flag first: a caller who has not joined and
  passes index 9 is rejected with \<^verbatim>\<open>"Join first"\<close>, not with \<^verbatim>\<open>"Invalid tile"\<close>.
\<close>

theorem rejections_counterexample:
  "\<not> (build alice 9 (encryptedInput 3) [1] deployFixture = Inl Invalid_tile \<longleftrightarrow>
       unat (9::uint8) \<notin> {0..8})"
  by (simp add: build_rejects_not_joined [OF deploy_not_joined])

text \<open>
  Claim C6, amended. \<open>joinGame\<close> fails exactly when the caller has joined, and then with
  \<^verbatim>\<open>"Already joined"\<close>. \<open>build\<close> fails with \<^verbatim>\<open>"Join first"\<close> exactly when the caller has not
  joined; with \<^verbatim>\<open>"Invalid tile"\<close> exactly when the caller has joined and the index is
  outside 0..8; with the provider's invalid-proof error exactly when the caller has
  joined, the index is in range and the proof does not verify. A call that fails leaves
  the whole state, and so the caller's record, as it was.
\<close>

theorem rejections:
  "(joinGame a s = Inl Already_joined \<longleftrightarrow> joined (players s a)) \<and>
   (joinGame a s = Inl e \<longrightarrow> e = Already_joined) \<and>
   (build a i bt pf s = Inl Join_first \<longleftrightarrow> \<not> joined (players s a)) \<and>
   (build a i bt pf s = Inl Invalid_tile \<longleftrightarrow> joined (players s a) \<and> unat i \<notin> {0..8}) \<and>
   (build a i bt pf s = Inl Invalid_proof \<longleftrightarrow>
      joined (players s a) \<and> unat i \<in> {0..8} \<and> \<not> input_verifier (fhe s) a (handle bt) pf) \<and>
   (dispatch a c s = Inl e \<longrightarrow>
      transact a c s = s \<and> players (transact a c s) a = players s a)"
  by (auto simp: joinGame_def build_def Let_def split_def FHE_fromExternal_def transact_def
        MAP_SIZE_def word_less_nat_alt)

theorem rejections_witness:
  "joined (players afterJoin alice) \<and> unat (9::uint8) \<notin> {0..8} \<and>
   joinGame alice afterJoin = Inl Already_joined \<and>
   build alice 9 (encryptedInput 3) [1] afterJoin = Inl Invalid_tile \<and>
   transact alice (Build 9 (encryptedInput 3) [1]) afterJoin = afterJoin \<and>
   build alice 2 (encryptedInput 3) [] afterJoin = Inl Invalid_proof \<and>
   build alice 9 (encryptedInput 3) [1] deployFixture = Inl Join_first"
  using rejections [of alice afterJoin Already_joined 9 "encryptedInput 3" "[1]"
          "Build 9 (encryptedInput 3) [1]"]
    rejections [of alice afterJoin Invalid_tile 9 "encryptedInput 3" "[1]"
          "Build 9 (encryptedInput 3) [1]"]
    rejections [of alice afterJoin Already_joined 2 "encryptedInput 3" "[]" JoinGame]
    rejections [of alice deployFixture Already_joined 9 "encryptedInput 3" "[1]" JoinGame]
    test_preconditions(1,2) deploy_not_joined
  by (simp add: dispatch_def afterJoin_simps mock_verifier_def)

subsection \<open>C7: a record that has not joined\<close>

text \<open>
  Claim C7, as stated, has the three view functions reject for a record with
  \<open>joined = False\<close>. They do not: on the freshly deployed contract \<open>isJoined\<close> returns
  false and \<open>getBalance\<close> and \<open>getTile\<close> return the zero handle of untouched storage.
\<close>

theorem not_joined_behaviour_counterexample:
  "\<not> joined (players deployFixture alice) \<and>
   isJoined alice deployFixture = Inr False \<and>
   getBalance alice deployFixture = Inr zero_slot \<and>
   getTile alice 0 deployFixture = Inr zero_slot"
  by (simp add: isJoined_def getBalance_def getTile_def deployFixture_simps empty_player_def
        MAP_SIZE_def)

text \<open>
  Claim C7, amended. In a reachable state, for an identity that has not joined, \<open>build\<close>
  is rejected with \<^verbatim>\<open>"Join first"\<close>; \<open>isJoined\<close> returns false; \<open>getBalance\<close> returns the
  zero handle; \<open>getTile\<close> returns the zero handle for an index below \<open>MAP_SIZE\<close> and is
  rejected with \<^verbatim>\<open>"Invalid tile"\<close> otherwise.
\<close>

theorem not_joined_behaviour:
  assumes "reachable s" and "\<not> joined (players s a)"
  shows "build a i bt pf s = Inl Join_first \<and>
         isJoined a s = Inr False \<and>
         getBalance a s = Inr zero_slot \<and>
         getTile a i s = (if i < MAP_SIZE then Inr zero_slot else Inl Invalid_tile)"
proof -
  have "players s a = empty_player"
    using state_invD(3) [OF reachable_inv [OF assms(1)] assms(2)] .
  then show ?thesis
    using assms(2) unat_tile_index [of i]
    by (auto simp: build_rejects_not_joined isJoined_def getBalance_def getTile_def
          empty_player_def MAP_SIZE_def)
qed

theorem not_joined_behaviour_witness:
  "reachable deployFixture \<and> \<not> joined (players deployFixture alice) \<and>
   build alice 0 (encryptedInput 3) [1] deployFixture = Inl Join_first \<and>
   isJoined alice deployFixture = Inr False \<and>
   getBalance alice deployFixture = Inr zero_slot \<and>
   getTile alice 0 deployFixture = Inr zero_slot \<and>
   getTile alice 9 deployFixture = Inl Invalid_tile"
  using not_joined_behaviour [OF deployFixture_reachable deploy_not_joined,
      of 0 "encryptedInput 3" "[1]"]
    not_joined_behaviour [OF deployFixture_reachable deploy_not_joined,
      of 9 "encryptedInput 3" "[1]"]
    deployFixture_reachable deploy_not_joined
  by (simp add: MAP_SIZE_def)

subsection \<open>C8: what a call may change\<close>

text \<open>
  Claim C8. A transaction sent by \<open>a\<close>, whether \<open>joinGame\<close> or \<open>build\<close> and whether it
  succeeds or reverts, leaves the record of every other identity as it was. A \<open>build\<close> by
  \<open>a\<close> at index \<open>i\<close> leaves \<open>a\<close>'s join flag, the number of \<open>a\<close>'s tiles and every tile of
  \<open>a\<close> at another index as they were: only \<open>a\<close>'s balance and tile \<open>i\<close> can change.
\<close>

theorem calls_touch_only_own_slots:
  "(b \<noteq> a \<longrightarrow> players (transact a c s) b = players s b) \<and>
   joined (players (transact a (Build i bt pf) s) a) = joined (players s a) \<and>
   length (tiles (players (transact a (Build i bt pf) s) a)) = length (tiles (players s a)) \<and>
   (k \<noteq> unat i \<longrightarrow>
      tiles (players (transact a (Build i bt pf) s) a) ! k = tiles (players s a) ! k)"
  by (cases c)
     (auto simp: transact_def dispatch_def joinGame_def build_def Let_def split_def
        FHE_fromExternal_def split: sum.splits if_splits)

theorem calls_touch_only_own_slots_witness:
  "(3::address) \<noteq> alice \<and> (0::nat) \<noteq> unat (2::uint8) \<and>
   players afterBuild 3 = players afterJoin 3 \<and>
   joined (players afterBuild alice) = joined (players afterJoin alice) \<and>
   tiles (players afterBuild alice) ! 0 = tiles (players afterJoin alice) ! 0 \<and>
   plain (balance (players afterBuild alice)) \<noteq> plain (balance (players afterJoin alice))"
proof -
  have ne: "(3::address) \<noteq> alice" "(0::nat) \<noteq> unat (2::uint8)"
    by (simp_all add: alice_def)
  show ?thesis
    using calls_touch_only_own_slots [of 3 alice "Build 2 (encryptedInput 3) [1]" afterJoin 2
        "encryptedInput 3" "[1]" 0, folded afterBuild_def] ne
    by (simp add: afterBuild_simps afterJoin_simps joined_player_simps)
qed

subsection \<open>C9: the balance is bounded and never grows\<close>

text \<open>
  Claim C9. In a reachable state the balance of a joined player decrypts to at most
  10000. A successful \<open>build\<close> never raises it: with \<open>b\<close> the old balance and \<open>c\<close> the
  evaluated cost, the new balance is \<open>b\<close>, or \<open>c \<le> b\<close> and it is \<open>b - c\<close> without
  wrap-around. The subtraction is requested from the provider in every call, and for
  \<open>b < c\<close> what it computes is the wrapped value \<open>b + 2 ^ 32 - c\<close>, but the stored
  balance is then \<open>b\<close>.
\<close>

theorem balance_never_grows:
  assumes "reachable s" and "joined (players s a)"
  shows "plain (balance (players s a)) \<le> 10000 \<and>
    (i < MAP_SIZE \<and> input_verifier (fhe s) a (handle bt) pf \<longrightarrow>
       (\<exists>s'. build a i bt pf s = Inr s' \<and>
          (let b = plain (balance (players s a));
               b' = plain (balance (players s' a));
               cost = fst (buildingCost bt (fhe s));
               c = plain cost;
               n = next_handle (fhe s)
           in b' \<le> b \<and>
              (b' = b \<or> c \<le> b \<and> unat b' = unat b - unat c) \<and>
              (OpSub, [Ct (handle (balance (players s a))), Ct (handle cost)], n + 16)
                 \<in> set (oplog (fhe s')) \<and>
              (b < c \<longrightarrow>
                 b' = b \<and>
                 unat (plain (fst (FHE_sub (balance (players s a)) cost fh)))
                   = unat b + 2 ^ 32 - unat c))))"
proof (intro conjI impI)
  show "plain (balance (players s a)) \<le> 10000"
    using reachable_balance_bound [OF assms] by (simp add: STARTING_BALANCE_def)
next
  assume pre: "i < MAP_SIZE \<and> input_verifier (fhe s) a (handle bt) pf"
  then have i: "i < MAP_SIZE" and v: "input_verifier (fhe s) a (handle bt) pf" by simp_all
  have wrap: "x < y \<Longrightarrow> unat (x - y) = unat x + 2 ^ 32 - unat y" for x y :: uint32
    by (simp add: unat_sub_if_size word_size word_less_nat_alt)
  show "\<exists>s'. build a i bt pf s = Inr s' \<and>
          (let b = plain (balance (players s a));
               b' = plain (balance (players s' a));
               cost = fst (buildingCost bt (fhe s));
               c = plain cost;
               n = next_handle (fhe s)
           in b' \<le> b \<and>
              (b' = b \<or> c \<le> b \<and> unat b' = unat b - unat c) \<and>
              (OpSub, [Ct (handle (balance (players s a))), Ct (handle cost)], n + 16)
                 \<in> set (oplog (fhe s')) \<and>
              (b < c \<longrightarrow>
                 b' = b \<and>
                 unat (plain (fst (FHE_sub (balance (players s a)) cost fh)))
                   = unat b + 2 ^ 32 - unat c))"
    unfolding build_succeeds [OF assms i v]
    by (auto simp: Let_def unat_sub word_sub_le commit_calls_def wrap FHE_sub_def produce_def
          buildingCost_eq)
qed

text \<open>
  After joining, a build of type 3 lowers the balance from 10000 to 9600. After ten
  builds of type 4 the balance is 0; a build of type 1 (cost 100) then leaves it at 0,
  while the subtraction it requests computes \<open>2 ^ 32 - 100\<close>.
\<close>

theorem balance_never_grows_witness:
  "reachable afterJoin \<and> joined (players afterJoin alice) \<and> (2::uint8) < MAP_SIZE \<and>
   input_verifier (fhe afterJoin) alice (handle (encryptedInput 3)) [1] \<and>
   plain (balance (players afterJoin alice)) \<le> 10000 \<and>
   (\<exists>s'. build alice 2 (encryptedInput 3) [1] afterJoin = Inr s' \<and>
      plain (balance (players s' alice)) \<le> plain (balance (players afterJoin alice))) \<and>
   reachable (afterSpending 10) \<and> joined (players (afterSpending 10) alice) \<and>
   input_verifier (fhe (afterSpending 10)) alice (handle (encryptedInput 1)) [1] \<and>
   plain (balance (players (afterSpending 10) alice))
     < plain (fst (buildingCost (encryptedInput 1) (fhe (afterSpending 10)))) \<and>
   (\<exists>s'. build alice 2 (encryptedInput 1) [1] (afterSpending 10) = Inr s' \<and>
      plain (balance (players s' alice)) = 0 \<and>
      unat (plain (fst (FHE_sub (balance (players (afterSpending 10) alice))
              (fst (buildingCost (encryptedInput 1) (fhe (afterSpending 10))))
              (fhe (afterSpending 10))))) = 4294967196)"
  using balance_never_grows [OF afterJoin_reachable test_preconditions(1),
      of 2 "encryptedInput 3" "[1]"]
    balance_never_grows [OF afterSpending_10(1,2),
      of 2 "encryptedInput 1" "[1]" "fhe (afterSpending 10)"]
    afterJoin_reachable test_preconditions(1,2) test_preconditions(3) [of 3]
    afterSpending_10(1,2) afterSpending_10(3) [of 1] afterSpending_10(4)
  by (auto simp: Let_def test_cost)

subsection \<open>C10: building on an occupied tile\<close>

text \<open>
  Claim C10. \<open>build\<close> does not look at what the tile already holds: in a reachable state,
  for a joined caller, an index below \<open>MAP_SIZE\<close> whose tile decrypts to a nonzero type,
  and a verified input of a recognised type that the balance covers, it succeeds,
  the tile then decrypts to the new type and the balance to the old balance less the
  new cost (without wrap-around). Nothing is refunded.
\<close>

theorem build_overwrites_occupied_tile:
  assumes "reachable s" and "joined (players s a)" and "i < MAP_SIZE"
    and "input_verifier (fhe s) a (handle bt) pf"
    and "plain (tiles (players s a) ! unat i) \<noteq> 0"
    and "plain (fst (buildingCost bt (fhe s))) \<noteq> 0"
    and "plain (fst (buildingCost bt (fhe s))) \<le> plain (balance (players s a))"
  shows "\<exists>s'. build a i bt pf s = Inr s' \<and>
           plain (tiles (players s' a) ! unat i) = plain bt \<and>
           plain (balance (players s' a)) =
             plain (balance (players s a)) - plain (fst (buildingCost bt (fhe s))) \<and>
           unat (plain (balance (players s' a))) =
             unat (plain (balance (players s a))) - unat (plain (fst (buildingCost bt (fhe s))))"
proof -
  have len: "unat i < length (tiles (players s a))"
    using reachable_tiles_length [OF assms(1), of a] unat_tile_index [OF assms(3)] by simp
  show ?thesis
    unfolding build_succeeds [OF assms(1-4)]
    using len assms(6,7) by (auto simp: Let_def unat_sub)
qed

text \<open>
  Tile 2 holds type 3 and the balance is 9600; building type 1 there leaves type 1 and
  9500.
\<close>

theorem build_overwrites_occupied_tile_witness:
  "reachable afterBuild \<and> joined (players afterBuild alice) \<and> (2::uint8) < MAP_SIZE \<and>
   input_verifier (fhe afterBuild) alice (handle (encryptedInput 1)) [1] \<and>
   plain (tiles (players afterBuild alice) ! unat (2::uint8)) = 3 \<and>
   plain (fst (buildingCost (encryptedInput 1) (fhe afterBuild))) = 100 \<and>
   plain (balance (players afterBuild alice)) = 9600 \<and>
   (\<exists>s'. build alice 2 (encryptedInput 1) [1] afterBuild = Inr s' \<and>
      plain (tiles (players s' alice) ! unat (2::uint8)) = 1 \<and>
      plain (balance (players s' alice)) = 9500)"
  using build_overwrites_occupied_tile [OF afterBuild_reachable afterBuild_simps(1)
      test_preconditions(2) afterBuild_preconditions(1) [of 1] afterBuild_preconditions(2,3,4)]
    afterBuild_reachable afterBuild_simps(1) test_preconditions(2)
    afterBuild_preconditions(1) [of 1]
  by (auto simp: afterBuild_simps test_cost encryptedInput_simps)

end
